theory Spec2Isabelle
  imports Complex_Main "HOL-Library.Word"
begin

section \<open>dicom2json: the per-file converter and the batch run\<close>

text \<open>
  A shallow embedding of \<^verbatim>\<open>src/dicomjson/dicom2json.py\<close>: the functions
  \<^verbatim>\<open>convert_dicom_to_data\<close> and \<^verbatim>\<open>dicom2json\<close>, with the file system, the
  logger and the list \<^verbatim>\<open>converted_data\<close> as explicit state, and every exception as a
  returned value. The libraries the script calls (pydicom, pathlib, numpy, OpenCV) are
  modelled by what the script uses of them. The command line of \<^verbatim>\<open>main\<close> (argument
  parsing, expansion of directories into files) is not part of the model: a run starts
  from the list of input files.
\<close>

subsection \<open>Data element values and datasets (pydicom)\<close>

text \<open>
  The value of a data element as \<^verbatim>\<open>Dataset.get(keyword)\<close> hands it out. The value
  representation fixes the Python type: \<open>US\<close> (unsigned short; Rows, Columns and
  BitsStored have it) is an \<^verbatim>\<open>int\<close> in 0..65535, \<open>OB\<close> (PixelData) is \<^verbatim>\<open>bytes\<close>,
  \<open>Txt\<close> stands for the text representations and is a \<^verbatim>\<open>str\<close>. A dataset is the
  ordered mapping from keyword to value; \<^verbatim>\<open>get\<close> of a keyword without element is
  \<^verbatim>\<open>None\<close>. Names that are not keywords but attributes of the Python object are
  treated in the last subsection of the model.
\<close>

datatype dvalue = US "16 word" | OB "8 word list" | Txt string

type_synonym dataset = "(string \<times> dvalue) list"

definition ds_get :: "dataset \<Rightarrow> string \<Rightarrow> dvalue option" where
  "ds_get ds k = map_of ds k"

definition ds_pop :: "dataset \<Rightarrow> string \<Rightarrow> dataset" where
  "ds_pop ds k = filter (\<lambda>kv. fst kv \<noteq> k) ds"

text \<open>Python's truth value of what \<^verbatim>\<open>get\<close> returned: \<^verbatim>\<open>None\<close>, 0, \<^verbatim>\<open>b''\<close> and
  \<^verbatim>\<open>''\<close> are false.\<close>

fun truthy :: "dvalue option \<Rightarrow> bool" where
  "truthy None = False"
| "truthy (Some (US n)) = (n \<noteq> 0)"
| "truthy (Some (OB bs)) = (bs \<noteq> [])"
| "truthy (Some (Txt s)) = (s \<noteq> [])"

subsection \<open>Errors, log records, files\<close>

text \<open>The exceptions that leave \<^verbatim>\<open>convert_dicom_to_data\<close>. \<open>ValueError b\<close> is the
  one the script raises itself, for the BitsStored value \<open>b\<close>. \<open>KeyError n\<close> is the one
  \<^verbatim>\<open>Dataset.pop\<close> raises for a name \<open>n\<close> without data element.\<close>

datatype error = FileNotFoundError | InvalidDicomError | PermissionError | TypeError
  | ValueError "16 word" | KeyError string

datatype level = DEBUG | WARNING | ERROR

datatype log_msg =
    Convert string
  | UnrecognizedField string
  | BufferNotConsistent string
  | NoPixelFields string
  | OutputWritten string

text \<open>A raster image as \<^verbatim>\<open>cv2.imwrite\<close> receives it: the sample width in bits and
  the rows of samples.\<close>

record raster =
  depth :: nat
  pixels :: "nat list list"

datatype jval = JNull | JString string

type_synonym json_object = "(string \<times> jval) list"

text \<open>
  What a file holds. \<open>DicomFile m d\<close> is a file that \<^verbatim>\<open>dcmread\<close> parses into the
  file meta header \<open>m\<close> and the dataset \<open>d\<close>. \<open>MetaJson m d\<close> is the text
  \<^verbatim>\<open>my_json_dumps({META: m.to_json_dict(), DATA: d.to_json_dict()})\<close>: pydicom writes
  one key per element of each dataset, so the document is kept as the two datasets.
  \<open>Png\<close> is the image file OpenCV writes, \<open>Manifest\<close> the array of objects of the
  template file, \<open>Other\<close> anything that is not a DICOM file.
\<close>

datatype content =
    DicomFile dataset dataset
  | MetaJson dataset dataset
  | Png raster
  | Manifest "json_object list"
  | Other string

record world =
  files :: "string \<Rightarrow> content option"
  readable :: "string \<Rightarrow> bool"
  writable :: "string \<Rightarrow> bool"
  logged :: "(level \<times> log_msg) list"

record DicomConvertedData =
  image' :: "string option"
  output' :: string
  template :: string

definition logger :: "level \<Rightarrow> log_msg \<Rightarrow> world \<Rightarrow> world" where
  "logger l m w = w\<lparr>logged := logged w @ [(l, m)]\<rparr>"

definition dcmread :: "world \<Rightarrow> string \<Rightarrow> error + (dataset \<times> dataset)" where
  "dcmread w p =
     (case files w p of
        None \<Rightarrow> Inl FileNotFoundError
      | Some c \<Rightarrow>
          if \<not> readable w p then Inl PermissionError
          else (case c of DicomFile m d \<Rightarrow> Inr (m, d) | _ \<Rightarrow> Inl InvalidDicomError))"

text \<open>\<^verbatim>\<open>open(path, "w")\<close>, \<^verbatim>\<open>write\<close>, \<^verbatim>\<open>close\<close>: the file holds the new content, or
  the open fails and nothing is written. \<open>PermissionError\<close> stands for either way the
  open can fail (no permission, no output directory); the script treats both alike.\<close>

definition open_write :: "world \<Rightarrow> string \<Rightarrow> content \<Rightarrow> error + world" where
  "open_write w p c =
     (if writable w p then Inr (w\<lparr>files := (files w)(p \<mapsto> c)\<rparr>) else Inl PermissionError)"

text \<open>\<^verbatim>\<open>cv2.imwrite\<close> does not raise when the file cannot be written: it returns
  False, which the script ignores.\<close>

definition imwrite :: "world \<Rightarrow> string \<Rightarrow> raster \<Rightarrow> world" where
  "imwrite w p img = (if writable w p then w\<lparr>files := (files w)(p \<mapsto> Png img)\<rparr> else w)"

subsection \<open>Paths (pathlib)\<close>

text \<open>A path is its string. \<^verbatim>\<open>name\<close> is the last component; \<^verbatim>\<open>suffix\<close> is the
  part of the name from its last dot, when that dot is neither the first nor the last
  character of the name; \<^verbatim>\<open>stem\<close> is the name without the suffix;
  \<^verbatim>\<open>with_suffix\<close> replaces the suffix of the last component.\<close>

definition path_name :: "string \<Rightarrow> string" where
  "path_name p = rev (takeWhile (\<lambda>c. c \<noteq> CHR ''/'') (rev p))"

definition rfind_dot :: "string \<Rightarrow> int" where
  "rfind_dot n =
     (if CHR ''.'' \<in> set n
      then int (length n) - 1 - int (length (takeWhile (\<lambda>c. c \<noteq> CHR ''.'') (rev n)))
      else - 1)"

definition suffix_of :: "string \<Rightarrow> string" where
  "suffix_of n =
     (let i = rfind_dot n
      in if 0 < i \<and> i < int (length n) - 1 then drop (nat i) n else [])"

definition stem :: "string \<Rightarrow> string" where
  "stem n =
     (let i = rfind_dot n
      in if 0 < i \<and> i < int (length n) - 1 then take (nat i) n else n)"

definition joinpath :: "string \<Rightarrow> string \<Rightarrow> string" where
  "joinpath d n = d @ ''/'' @ n"

definition with_suffix :: "string \<Rightarrow> string \<Rightarrow> string" where
  "with_suffix p s = take (length p - length (suffix_of (path_name p))) p @ s"

text \<open>Modelled from the spec: the module \<^verbatim>\<open>constants\<close> (JsonConstants, PngConstants)
  is not among the sources. The spec gives the suffixes \<^verbatim>\<open>.json\<close> and \<^verbatim>\<open>.png\<close> and
  the manifest keys \<^verbatim>\<open>template\<close>, \<^verbatim>\<open>image\<close>, \<^verbatim>\<open>output\<close>.\<close>

definition JSON_SUFFIX :: string where "JSON_SUFFIX = ''.json''"
definition PNG_SUFFIX :: string where "PNG_SUFFIX = ''.png''"
definition TEMPLATE :: string where "TEMPLATE = ''template''"
definition IMAGE :: string where "IMAGE = ''image''"
definition OUTPUT :: string where "OUTPUT = ''output''"

definition output_filepath :: "string \<Rightarrow> string \<Rightarrow> string" where
  "output_filepath outdir input_file = joinpath outdir (stem (path_name input_file))"

definition output_dataset_filepath :: "string \<Rightarrow> string \<Rightarrow> string" where
  "output_dataset_filepath outdir input_file =
     with_suffix (output_filepath outdir input_file) JSON_SUFFIX"

definition output_image_filepath :: "string \<Rightarrow> string \<Rightarrow> string" where
  "output_image_filepath outdir input_file =
     with_suffix (output_filepath outdir input_file) PNG_SUFFIX"

subsection \<open>Pixel data (numpy)\<close>

datatype dtype = uint8 | uint16

fun itemsize :: "dtype \<Rightarrow> nat" where
  "itemsize uint8 = 1"
| "itemsize uint16 = 2"

text \<open>The 16-bit samples are read in the byte order of the host, little-endian on the
  machines the script's numpy and OpenCV run on.\<close>

fun samples16 :: "8 word list \<Rightarrow> nat list" where
  "samples16 (lo # hi # bs) = (unat lo + 256 * unat hi) # samples16 bs"
| "samples16 bs = []"

fun samples :: "dtype \<Rightarrow> 8 word list \<Rightarrow> nat list" where
  "samples uint8 bs = map unat bs"
| "samples uint16 bs = samples16 bs"

fun rows_of :: "nat \<Rightarrow> nat \<Rightarrow> 'a list \<Rightarrow> 'a list list" where
  "rows_of 0 c xs = []"
| "rows_of (Suc r) c xs = take c xs # rows_of r c (drop c xs)"

text \<open>\<^verbatim>\<open>np.ndarray((rows, columns), img_dtype, pixel_data)\<close>: the shape must be two
  ints, the buffer a bytes object at least as long as the array.\<close>

definition ndarray :: "dvalue option \<Rightarrow> dvalue option \<Rightarrow> dtype \<Rightarrow> dvalue option \<Rightarrow> error + raster" where
  "ndarray rows columns dt buffer =
     (case (rows, columns, buffer) of
        (Some (US r), Some (US c), Some (OB bs)) \<Rightarrow>
          if length bs < unat r * unat c * itemsize dt then Inl TypeError
          else Inr \<lparr>depth = 8 * itemsize dt,
                    pixels = rows_of (unat r) (unat c) (samples dt bs)\<rparr>
      | _ \<Rightarrow> Inl TypeError)"

subsection \<open>convert\_dicom\_to\_data\<close>

text \<open>\<^verbatim>\<open>len(pixel_data)\<close>: an int has no length.\<close>

fun py_len :: "dvalue option \<Rightarrow> error + nat" where
  "py_len (Some (OB bs)) = Inr (length bs)"
| "py_len (Some (Txt s)) = Inr (length s)"
| "py_len _ = Inl TypeError"

text \<open>\<^verbatim>\<open>rows * columns * (bits_stored / 8)\<close>: a float. With three 16-bit operands the
  double arithmetic is exact, so the value is the rational number. A str or bytes
  operand ends in a TypeError (a sequence times a sequence, a sequence divided by 8, or
  a sequence times a float).\<close>

fun expected_length :: "dvalue option \<Rightarrow> dvalue option \<Rightarrow> dvalue option \<Rightarrow> error + rat" where
  "expected_length (Some (US r)) (Some (US c)) (Some (US b)) =
     Inr (of_nat (unat r) * of_nat (unat c) * (of_nat (unat b) / 8))"
| "expected_length _ _ _ = Inl TypeError"

text \<open>Lines 64 to 68: both lengths stay \<^verbatim>\<open>None\<close> unless all four values are true.\<close>

definition pixel_lengths ::
  "dvalue option \<Rightarrow> dvalue option \<Rightarrow> dvalue option \<Rightarrow> dvalue option \<Rightarrow> error + (nat \<times> rat) option" where
  "pixel_lengths rows columns pixel_data bits_stored =
     (if truthy pixel_data \<and> truthy rows \<and> truthy columns \<and> truthy bits_stored then
        (case py_len pixel_data of
           Inl e \<Rightarrow> Inl e
         | Inr pixel_data_length \<Rightarrow>
             (case expected_length rows columns bits_stored of
                Inl e \<Rightarrow> Inl e
              | Inr pixel_data_expected_length \<Rightarrow>
                  Inr (Some (pixel_data_length, pixel_data_expected_length))))
      else Inr None)"

text \<open>Lines 78 to 85: the loop over \<^verbatim>\<open>remove_dicom_fields\<close>, for names that are
  keywords of the data dictionary (the last subsection of the model has the loop for
  any string).\<close>

fun remove_fields :: "string list \<Rightarrow> dataset \<times> world \<Rightarrow> dataset \<times> world" where
  "remove_fields [] (ds, w) = (ds, w)"
| "remove_fields (n # ns) (ds, w) =
     (if truthy (ds_get ds n) then remove_fields ns (ds_pop ds n, w)
      else remove_fields ns (ds, logger WARNING (UnrecognizedField n) w))"

text \<open>\<^verbatim>\<open>if remove_dicom_fields:\<close> skips the loop for \<^verbatim>\<open>None\<close> (the option was not
  given) and for the empty list.\<close>

definition redact :: "string list option \<Rightarrow> dataset \<times> world \<Rightarrow> dataset \<times> world" where
  "redact remove_dicom_fields dw =
     (case remove_dicom_fields of None \<Rightarrow> dw | Some ns \<Rightarrow> remove_fields ns dw)"

text \<open>Lines 101 to 109: the sample type, or \<^verbatim>\<open>None\<close> where the script raises.\<close>

definition img_dtype_of :: "dvalue option \<Rightarrow> dtype option" where
  "img_dtype_of bits_stored =
     (if bits_stored = Some (US 8) then Some uint8
      else if bits_stored = Some (US 16) then Some uint16
      else None)"

text \<open>The value the message of line 107 is formatted with. Where line 109 is reached,
  \<^verbatim>\<open>bits_stored\<close> is an int: line 68 has raised for anything else.\<close>

definition bits_value :: "dvalue option \<Rightarrow> 16 word" where
  "bits_value v = (case v of Some (US b) \<Rightarrow> b | _ \<Rightarrow> 0)"

text \<open>Lines 98 to 133, after the metadata file has been written. The result is the
  exception raised (if any), the list \<^verbatim>\<open>converted_data\<close> and the world.\<close>

definition create_image ::
  "string \<Rightarrow> string \<Rightarrow> dvalue option \<Rightarrow> dvalue option \<Rightarrow> dvalue option \<Rightarrow> dvalue option
   \<Rightarrow> (nat \<times> rat) option \<Rightarrow> DicomConvertedData list \<Rightarrow> world
   \<Rightarrow> error option \<times> DicomConvertedData list \<times> world" where
  "create_image outdir input_file rows columns pixel_data bits_stored lens converted_data w =
     (if truthy rows \<and> truthy columns \<and> truthy pixel_data \<and> truthy bits_stored then
        (case img_dtype_of bits_stored of
           None \<Rightarrow> (Some (ValueError (bits_value bits_stored)), converted_data, w)
         | Some img_dtype \<Rightarrow>
             (case lens of
                None \<Rightarrow> (Some TypeError, converted_data, w)
              | Some (pixel_data_length, pixel_data_expected_length) \<Rightarrow>
                  if \<not> (int pixel_data_length = \<lfloor>pixel_data_expected_length\<rfloor>) then
                    (None,
                     converted_data @
                       [\<lparr>image' = None, output' = path_name input_file,
                         template = output_dataset_filepath outdir input_file\<rparr>],
                     logger ERROR (BufferNotConsistent input_file) w)
                  else
                    (case ndarray rows columns img_dtype pixel_data of
                       Inl e \<Rightarrow> (Some e, converted_data, w)
                     | Inr dicom_image \<Rightarrow>
                         (None,
                          converted_data @
                            [\<lparr>image' = Some (output_image_filepath outdir input_file),
                              output' = path_name input_file,
                              template = output_dataset_filepath outdir input_file\<rparr>],
                          imwrite w (output_image_filepath outdir input_file) dicom_image))))
      else
        (None,
         converted_data @
           [\<lparr>image' = None, output' = path_name input_file,
             template = output_dataset_filepath outdir input_file\<rparr>],
         logger WARNING (NoPixelFields input_file) w))"

definition convert_dicom_to_data ::
  "string \<Rightarrow> string \<Rightarrow> string list option \<Rightarrow> DicomConvertedData list \<Rightarrow> world
   \<Rightarrow> error option \<times> DicomConvertedData list \<times> world" where
  "convert_dicom_to_data outdir input_file remove_dicom_fields converted_data w =
     (case dcmread w input_file of
        Inl e \<Rightarrow> (Some e, converted_data, w)
      | Inr (file_meta, dicom_dataset) \<Rightarrow>
          let rows = ds_get dicom_dataset ''Rows'';
              columns = ds_get dicom_dataset ''Columns'';
              pixel_data = ds_get dicom_dataset ''PixelData'';
              bits_stored = ds_get dicom_dataset ''BitsStored''
          in (case pixel_lengths rows columns pixel_data bits_stored of
                Inl e \<Rightarrow> (Some e, converted_data, w)
              | Inr lens \<Rightarrow>
                  (case redact remove_dicom_fields (dicom_dataset, w) of
                     (ds', w1) \<Rightarrow>
                       (case open_write w1 (output_dataset_filepath outdir input_file)
                               (MetaJson file_meta ds') of
                          Inl e \<Rightarrow> (Some e, converted_data, w1)
                        | Inr w2 \<Rightarrow>
                            create_image outdir input_file rows columns pixel_data
                              bits_stored lens converted_data w2))))"

subsection \<open>dicom2json\<close>

text \<open>The loop over \<^verbatim>\<open>input_files\<close>: an exception of one file ends it.\<close>

fun convert_all ::
  "string \<Rightarrow> string list \<Rightarrow> string list option \<Rightarrow> DicomConvertedData list \<Rightarrow> world
   \<Rightarrow> error option \<times> DicomConvertedData list \<times> world" where
  "convert_all outdir [] rdf converted_data w = (None, converted_data, w)"
| "convert_all outdir (input_file # rest) rdf converted_data w =
     (case convert_dicom_to_data outdir input_file rdf converted_data
             (logger DEBUG (Convert input_file) w) of
        (Some e, cd', w') \<Rightarrow> (Some e, cd', w')
      | (None, cd', w') \<Rightarrow> convert_all outdir rest rdf cd' w')"

definition json_of :: "DicomConvertedData \<Rightarrow> json_object" where
  "json_of d =
     [(TEMPLATE, JString (template d)),
      (IMAGE, (case image' d of None \<Rightarrow> JNull | Some p \<Rightarrow> JString p)),
      (OUTPUT, JString (output' d))]"

definition output_template_filepath :: "string \<Rightarrow> string" where
  "output_template_filepath outdir = with_suffix (joinpath outdir ''_dicom2json'') JSON_SUFFIX"

definition dicom2json ::
  "string \<Rightarrow> string list \<Rightarrow> string list option \<Rightarrow> world \<Rightarrow> error option \<times> world" where
  "dicom2json outdir input_files remove_dicom_fields w =
     (case convert_all outdir input_files remove_dicom_fields [] w of
        (Some e, converted_data, w') \<Rightarrow> (Some e, w')
      | (None, converted_data, w') \<Rightarrow>
          (case open_write w' (output_template_filepath outdir)
                  (Manifest (map json_of converted_data)) of
             Inl e \<Rightarrow> (Some e, w')
           | Inr w'' \<Rightarrow> (None, logger DEBUG (OutputWritten outdir) w'')))"

subsection \<open>Redaction names that are attributes of the dataset object\<close>

text \<open>
  \<^verbatim>\<open>Dataset.get(name)\<close> with a string is \<^verbatim>\<open>getattr(self, name)\<close> with the default
  \<^verbatim>\<open>None\<close>. For the keyword of a data element that is \<open>ds_get\<close>, and \<open>remove_fields\<close>
  above is the loop of lines 78 to 85 for the names the help text of
  \<^verbatim>\<open>--remove_dicom_fields\<close> lists, the keywords of the data dictionary. A string that is
  the name of an attribute of the object \<^verbatim>\<open>dcmread\<close> built (\<^verbatim>\<open>filename\<close>,
  \<^verbatim>\<open>preamble\<close>, \<^verbatim>\<open>file_meta\<close>, a method of the class) comes back as that attribute,
  and \<^verbatim>\<open>Dataset.pop(name)\<close>, which looks the name up among the data elements, raises
  KeyError where the dataset has no element of that name. \<open>attrs\<close> lists the attributes
  of the object, each with the truth value of its value. The functions of this
  subsection are the loop, the conversion and the run for any list of strings: the
  lookup of line 80 is \<open>get_truth\<close>, the \<^verbatim>\<open>pop\<close> of line 81 is \<open>pop_element\<close>, and all
  other steps are those of the functions above.
\<close>

type_synonym attributes = "(string \<times> bool) list"

definition get_truth :: "attributes \<Rightarrow> dataset \<Rightarrow> string \<Rightarrow> bool" where
  "get_truth attrs ds n =
     (case map_of attrs n of Some b \<Rightarrow> b | None \<Rightarrow> truthy (ds_get ds n))"

definition pop_element :: "dataset \<Rightarrow> string \<Rightarrow> error + dataset" where
  "pop_element ds n =
     (case ds_get ds n of None \<Rightarrow> Inl (KeyError n) | Some v \<Rightarrow> Inr (ds_pop ds n))"

fun remove_fields_attr ::
  "attributes \<Rightarrow> string list \<Rightarrow> dataset \<times> world \<Rightarrow> error option \<times> dataset \<times> world" where
  "remove_fields_attr attrs [] (ds, w) = (None, ds, w)"
| "remove_fields_attr attrs (n # ns) (ds, w) =
     (if get_truth attrs ds n then
        (case pop_element ds n of
           Inl e \<Rightarrow> (Some e, ds, w)
         | Inr ds' \<Rightarrow> remove_fields_attr attrs ns (ds', w))
      else remove_fields_attr attrs ns (ds, logger WARNING (UnrecognizedField n) w))"

definition redact_attr ::
  "attributes \<Rightarrow> string list option \<Rightarrow> dataset \<times> world \<Rightarrow> error option \<times> dataset \<times> world" where
  "redact_attr attrs remove_dicom_fields dw =
     (case remove_dicom_fields of
        None \<Rightarrow> (None, dw)
      | Some ns \<Rightarrow> remove_fields_attr attrs ns dw)"

definition convert_dicom_to_data_attr ::
  "attributes \<Rightarrow> string \<Rightarrow> string \<Rightarrow> string list option \<Rightarrow> DicomConvertedData list \<Rightarrow> world
   \<Rightarrow> error option \<times> DicomConvertedData list \<times> world" where
  "convert_dicom_to_data_attr attrs outdir input_file remove_dicom_fields converted_data w =
     (case dcmread w input_file of
        Inl e \<Rightarrow> (Some e, converted_data, w)
      | Inr (file_meta, dicom_dataset) \<Rightarrow>
          let rows = ds_get dicom_dataset ''Rows'';
              columns = ds_get dicom_dataset ''Columns'';
              pixel_data = ds_get dicom_dataset ''PixelData'';
              bits_stored = ds_get dicom_dataset ''BitsStored''
          in (case pixel_lengths rows columns pixel_data bits_stored of
                Inl e \<Rightarrow> (Some e, converted_data, w)
              | Inr lens \<Rightarrow>
                  (case redact_attr attrs remove_dicom_fields (dicom_dataset, w) of
                     (Some e, ds', w1) \<Rightarrow> (Some e, converted_data, w1)
                   | (None, ds', w1) \<Rightarrow>
                       (case open_write w1 (output_dataset_filepath outdir input_file)
                               (MetaJson file_meta ds') of
                          Inl e \<Rightarrow> (Some e, converted_data, w1)
                        | Inr w2 \<Rightarrow>
                            create_image outdir input_file rows columns pixel_data
                              bits_stored lens converted_data w2))))"

fun convert_all_attr ::
  "attributes \<Rightarrow> string \<Rightarrow> string list \<Rightarrow> string list option \<Rightarrow> DicomConvertedData list \<Rightarrow> world
   \<Rightarrow> error option \<times> DicomConvertedData list \<times> world" where
  "convert_all_attr attrs outdir [] rdf converted_data w = (None, converted_data, w)"
| "convert_all_attr attrs outdir (input_file # rest) rdf converted_data w =
     (case convert_dicom_to_data_attr attrs outdir input_file rdf converted_data
             (logger DEBUG (Convert input_file) w) of
        (Some e, cd', w') \<Rightarrow> (Some e, cd', w')
      | (None, cd', w') \<Rightarrow> convert_all_attr attrs outdir rest rdf cd' w')"

definition dicom2json_attr ::
  "attributes \<Rightarrow> string \<Rightarrow> string list \<Rightarrow> string list option \<Rightarrow> world \<Rightarrow> error option \<times> world" where
  "dicom2json_attr attrs outdir input_files remove_dicom_fields w =
     (case convert_all_attr attrs outdir input_files remove_dicom_fields [] w of
        (Some e, converted_data, w') \<Rightarrow> (Some e, w')
      | (None, converted_data, w') \<Rightarrow>
          (case open_write w' (output_template_filepath outdir)
                  (Manifest (map json_of converted_data)) of
             Inl e \<Rightarrow> (Some e, w')
           | Inr w'' \<Rightarrow> (None, logger DEBUG (OutputWritten outdir) w'')))"

subsection \<open>Example inputs\<close>

text \<open>A world with one input file, \<^verbatim>\<open>in/a.dcm\<close>, holding the given dataset; every
  path can be read and written.\<close>

definition example_meta :: dataset where
  "example_meta = [(''TransferSyntaxUID'', Txt ''1.2.840.10008.1.2.1'')]"

definition example_world :: "dataset \<Rightarrow> world" where
  "example_world ds =
     \<lparr>files = (\<lambda>p. if p = ''in/a.dcm'' then Some (DicomFile example_meta ds) else None),
      readable = (\<lambda>p. True), writable = (\<lambda>p. True), logged = []\<rparr>"

definition example_no_rows :: dataset where
  "example_no_rows =
     [(''Columns'', US 2), (''BitsStored'', US 8), (''PixelData'', OB [10, 20, 30, 40])]"


definition example_image :: dataset where
  "example_image =
     [(''Rows'', US 2), (''Columns'', US 2), (''BitsStored'', US 8),
      (''PixelData'', OB [10, 20, 30, 40])]"


definition example_12bit :: dataset where
  "example_12bit =
     [(''Rows'', US 2), (''Columns'', US 2), (''BitsStored'', US 12),
      (''PixelData'', OB [10, 20, 30, 40])]"


definition example_batch_world :: world where
  "example_batch_world =
     \<lparr>files = (\<lambda>p. if p = ''in/a.dcm'' then Some (DicomFile example_meta example_image)
                   else if p = ''in/b.dcm'' then Some (DicomFile example_meta example_no_rows)
                   else None),
      readable = (\<lambda>p. True), writable = (\<lambda>p. True), logged = []\<rparr>"

definition example_unsigned :: dataset where
  "example_unsigned = [(''PatientID'', Txt ''P1''), (''PixelRepresentation'', US 0)]"

definition example_image16 :: dataset where
  "example_image16 =
     [(''Rows'', US 1), (''Columns'', US 2), (''BitsStored'', US 16),
      (''PixelData'', OB [1, 0, 0, 1])]"

text \<open>Some attributes of the \<^verbatim>\<open>FileDataset\<close> object of a file read from disk.\<close>

definition example_attributes :: attributes where
  "example_attributes =
     [(''filename'', True), (''preamble'', True), (''file_meta'', True),
      (''is_little_endian'', True), (''is_implicit_VR'', False)]"

section \<open>Properties\<close>

subsection \<open>Redaction, the three outcomes of a file, the loop, the sample grid\<close>

lemma ds_get_pop: "ds_get (ds_pop ds n) k = (if k = n then None else ds_get ds k)"
  unfolding ds_get_def ds_pop_def
  by (induction ds) auto

lemma remove_fields_get:
  "ds_get (fst (remove_fields ns (ds, w))) k =
     (if k \<in> set ns \<and> truthy (ds_get ds k) then None else ds_get ds k)"
proof (induction ns arbitrary: ds w)
  case Nil
  show ?case by simp
next
  case (Cons n ns)
  show ?case
  proof (cases "truthy (ds_get ds n)")
    case True
    then show ?thesis
      using Cons.IH [of "ds_pop ds n" w] by (auto simp: ds_get_pop)
  next
    case False
    then show ?thesis
      using Cons.IH [of ds "logger WARNING (UnrecognizedField n) w"] by auto
  qed
qed

lemma remove_fields_shape:
  "\<exists>ds' ws. (\<forall>w. remove_fields ns (ds, w) = (ds', w\<lparr>logged := logged w @ ws\<rparr>)) \<and>
     (\<forall>e \<in> set ws. fst e = WARNING)"
proof (induction ns arbitrary: ds)
  case Nil
  have "\<forall>w. remove_fields [] (ds, w) = (ds, w\<lparr>logged := logged w @ []\<rparr>)" by simp
  then show ?case by (intro exI [of _ ds] exI [of _ "[]"]) simp
next
  case (Cons n ns)
  show ?case
  proof (cases "truthy (ds_get ds n)")
    case True
    from Cons.IH [of "ds_pop ds n"] obtain ds' ws where
      h: "\<forall>w. remove_fields ns (ds_pop ds n, w) = (ds', w\<lparr>logged := logged w @ ws\<rparr>)"
      and hw: "\<forall>e \<in> set ws. fst e = WARNING" by blast
    from True h have "\<forall>w. remove_fields (n # ns) (ds, w) = (ds', w\<lparr>logged := logged w @ ws\<rparr>)"
      by simp
    with hw show ?thesis by blast
  next
    case False
    from Cons.IH [of ds] obtain ds' ws where
      h: "\<forall>w. remove_fields ns (ds, w) = (ds', w\<lparr>logged := logged w @ ws\<rparr>)"
      and hw: "\<forall>e \<in> set ws. fst e = WARNING" by blast
    let ?ws = "(WARNING, UnrecognizedField n) # ws"
    from False h have "\<forall>w. remove_fields (n # ns) (ds, w) = (ds', w\<lparr>logged := logged w @ ?ws\<rparr>)"
      by (simp add: logger_def)
    moreover from hw have "\<forall>e \<in> set ?ws. fst e = WARNING" by simp
    ultimately show ?thesis by blast
  qed
qed

lemma json_png_differ: "output_dataset_filepath outdir f \<noteq> output_image_filepath outdir f"
  by (simp add: output_dataset_filepath_def output_image_filepath_def with_suffix_def
      JSON_SUFFIX_def PNG_SUFFIX_def)

lemma dcmread_logger [simp]: "dcmread (logger l x w) p = dcmread w p"
  by (simp add: dcmread_def logger_def split: option.splits)

lemma redact_shape:
  "\<exists>ds' ws. (\<forall>w. redact rdf (ds, w) = (ds', w\<lparr>logged := logged w @ ws\<rparr>)) \<and>
     (\<forall>e \<in> set ws. fst e = WARNING)"
proof (cases rdf)
  case None
  have "\<forall>w. redact None (ds, w) = (ds, w\<lparr>logged := logged w @ []\<rparr>)"
    by (simp add: redact_def)
  with None show ?thesis by (intro exI [of _ ds] exI [of _ "[]"]) simp
next
  case (Some ns)
  with remove_fields_shape [of ns ds] show ?thesis by (simp add: redact_def)
qed












lemma create_image_frame:
  assumes "create_image outdir f rows columns pixel_data bits_stored lens cd w = (r, cd', w')"
  shows "(\<forall>p es. files w' p = Some (Manifest es) \<longrightarrow> files w p = Some (Manifest es)) \<and>
         (\<forall>p. p \<noteq> output_image_filepath outdir f \<longrightarrow> files w' p = files w p)"
  using assms
  by (auto simp: create_image_def logger_def imwrite_def
      split: if_splits option.splits sum.splits prod.splits)

lemma create_image_entry:
  assumes "create_image outdir f rows columns pixel_data bits_stored lens cd w = (r, cd', w')"
  shows "(r \<noteq> None \<longrightarrow> cd' = cd) \<and>
         (r = None \<longrightarrow> (\<exists>e. cd' = cd @ [e] \<and> template e = output_dataset_filepath outdir f \<and>
            output' e = path_name f \<and>
            (image' e = None \<or> image' e = Some (output_image_filepath outdir f))))"
  using assms
  by (auto simp: create_image_def split: if_splits option.splits sum.splits prod.splits)

lemma convert_cases:
  assumes "convert_dicom_to_data outdir f rdf cd w = (r, cd', w')"
  shows "(r \<noteq> None \<and> cd' = cd \<and> files w' = files w) \<or>
         (\<exists>m ds ds' ws lens. dcmread w f = Inr (m, ds) \<and>
            (\<forall>v. redact rdf (ds, v) = (ds', v\<lparr>logged := logged v @ ws\<rparr>)) \<and>
            writable w (output_dataset_filepath outdir f) \<and>
            create_image outdir f (ds_get ds ''Rows'') (ds_get ds ''Columns'')
              (ds_get ds ''PixelData'') (ds_get ds ''BitsStored'') lens cd
              (w\<lparr>logged := logged w @ ws,
                 files := (files w)(output_dataset_filepath outdir f \<mapsto> MetaJson m ds')\<rparr>) = (r, cd', w'))"
proof (cases "dcmread w f")
  case (Inl e)
  with assms show ?thesis by (auto simp: convert_dicom_to_data_def)
next
  case (Inr md)
  obtain m ds where md: "md = (m, ds)" by (cases md)
  obtain ds' ws where red: "\<forall>v. redact rdf (ds, v) = (ds', v\<lparr>logged := logged v @ ws\<rparr>)"
    using redact_shape [of rdf ds] by blast
  show ?thesis
  proof (cases "pixel_lengths (ds_get ds ''Rows'') (ds_get ds ''Columns'')
                  (ds_get ds ''PixelData'') (ds_get ds ''BitsStored'')")
    case (Inl e)
    with assms Inr md show ?thesis by (auto simp: convert_dicom_to_data_def Let_def)
  next
    case pl: (Inr lens)
    show ?thesis
    proof (cases "writable w (output_dataset_filepath outdir f)")
      case False
      with assms Inr md pl red show ?thesis
        by (auto simp: convert_dicom_to_data_def Let_def open_write_def)
    next
      case True
      with assms Inr md pl red have
        "create_image outdir f (ds_get ds ''Rows'') (ds_get ds ''Columns'')
              (ds_get ds ''PixelData'') (ds_get ds ''BitsStored'') lens cd
              (w\<lparr>logged := logged w @ ws,
                 files := (files w)(output_dataset_filepath outdir f \<mapsto> MetaJson m ds')\<rparr>) = (r, cd', w')"
        by (simp add: convert_dicom_to_data_def Let_def open_write_def)
      with Inr md red True show ?thesis by blast
    qed
  qed
qed

lemma convert_no_manifest:
  assumes "convert_dicom_to_data outdir f rdf cd w = (r, cd', w')"
    and "files w' p = Some (Manifest es)"
  shows "files w p = Some (Manifest es)"
  using convert_cases [OF assms(1)]
proof
  assume "r \<noteq> None \<and> cd' = cd \<and> files w' = files w"
  with assms(2) show ?thesis by simp
next
  assume "\<exists>m ds ds' ws lens. dcmread w f = Inr (m, ds) \<and>
            (\<forall>v. redact rdf (ds, v) = (ds', v\<lparr>logged := logged v @ ws\<rparr>)) \<and>
            writable w (output_dataset_filepath outdir f) \<and>
            create_image outdir f (ds_get ds ''Rows'') (ds_get ds ''Columns'')
              (ds_get ds ''PixelData'') (ds_get ds ''BitsStored'') lens cd
              (w\<lparr>logged := logged w @ ws,
                 files := (files w)(output_dataset_filepath outdir f \<mapsto> MetaJson m ds')\<rparr>) = (r, cd', w')"
  then obtain m ds' ws rows columns pixel_data bits_stored lens where
    ci: "create_image outdir f rows columns pixel_data bits_stored lens cd
              (w\<lparr>logged := logged w @ ws,
                 files := (files w)(output_dataset_filepath outdir f \<mapsto> MetaJson m ds')\<rparr>) = (r, cd', w')"
    by blast
  from create_image_frame [OF ci] assms(2)
  have "((files w)(output_dataset_filepath outdir f \<mapsto> MetaJson m ds')) p = Some (Manifest es)"
    by simp
  then show ?thesis by (simp split: if_splits)
qed

lemma convert_entry:
  assumes "convert_dicom_to_data outdir f rdf cd w = (r, cd', w')"
  shows "(r \<noteq> None \<longrightarrow> cd' = cd) \<and>
         (r = None \<longrightarrow> (\<exists>e. cd' = cd @ [e] \<and> template e = output_dataset_filepath outdir f \<and>
            output' e = path_name f \<and>
            (image' e = None \<or> image' e = Some (output_image_filepath outdir f))))"
  using convert_cases [OF assms] create_image_entry by blast

lemma convert_all_append:
  "convert_all outdir (xs @ ys) rdf cd w =
     (case convert_all outdir xs rdf cd w of
        (Some e, cd', w') \<Rightarrow> (Some e, cd', w')
      | (None, cd', w') \<Rightarrow> convert_all outdir ys rdf cd' w')"
proof (induction xs arbitrary: cd w)
  case Nil
  show ?case by simp
next
  case (Cons x xs)
  show ?case
    by (simp add: Cons.IH split: prod.splits option.splits)
qed

lemma convert_all_no_manifest:
  assumes "convert_all outdir fs rdf cd w = (r, cd', w')"
    and "files w' p = Some (Manifest es)"
  shows "files w p = Some (Manifest es)"
  using assms
proof (induction fs arbitrary: cd w)
  case Nil
  then show ?case by simp
next
  case (Cons x xs)
  obtain r1 cd1 w1 where
    c: "convert_dicom_to_data outdir x rdf cd (logger DEBUG (Convert x) w) = (r1, cd1, w1)"
    by (cases "convert_dicom_to_data outdir x rdf cd (logger DEBUG (Convert x) w)")
  have step: "files w1 p = Some (Manifest es)"
  proof (cases r1)
    case None
    with Cons.prems(1) c have "convert_all outdir xs rdf cd1 w1 = (r, cd', w')" by simp
    from Cons.IH [OF this Cons.prems(2)] show ?thesis .
  next
    case (Some e)
    with Cons.prems c show ?thesis by simp
  qed
  from convert_no_manifest [OF c step] show ?case by (simp add: logger_def)
qed

lemma convert_all_entries:
  assumes "convert_all outdir fs rdf cd w = (None, cd', w')"
  shows "\<exists>es. cd' = cd @ es \<and> length es = length fs \<and>
     (\<forall>i < length fs. template (es ! i) = output_dataset_filepath outdir (fs ! i) \<and>
        output' (es ! i) = path_name (fs ! i) \<and>
        (image' (es ! i) = None \<or> image' (es ! i) = Some (output_image_filepath outdir (fs ! i))))"
  using assms
proof (induction fs arbitrary: cd w)
  case Nil
  then show ?case by simp
next
  case (Cons x xs)
  obtain r1 cd1 w1 where
    c: "convert_dicom_to_data outdir x rdf cd (logger DEBUG (Convert x) w) = (r1, cd1, w1)"
    by (cases "convert_dicom_to_data outdir x rdf cd (logger DEBUG (Convert x) w)")
  from Cons.prems c have r1: "r1 = None"
    by (cases r1) auto
  with Cons.prems c have rest: "convert_all outdir xs rdf cd1 w1 = (None, cd', w')" by simp
  from convert_entry [OF c] r1 obtain e where
    e: "cd1 = cd @ [e]" "template e = output_dataset_filepath outdir x"
       "output' e = path_name x"
       "image' e = None \<or> image' e = Some (output_image_filepath outdir x)"
    by blast
  from Cons.IH [OF rest] obtain es where
    es: "cd' = cd1 @ es" "length es = length xs"
        "\<forall>i < length xs. template (es ! i) = output_dataset_filepath outdir (xs ! i) \<and>
           output' (es ! i) = path_name (xs ! i) \<and>
           (image' (es ! i) = None \<or> image' (es ! i) = Some (output_image_filepath outdir (xs ! i)))"
    by blast
  have "\<forall>i < length (x # xs). template ((e # es) ! i) = output_dataset_filepath outdir ((x # xs) ! i) \<and>
        output' ((e # es) ! i) = path_name ((x # xs) ! i) \<and>
        (image' ((e # es) ! i) = None \<or>
         image' ((e # es) ! i) = Some (output_image_filepath outdir ((x # xs) ! i)))"
  proof (intro allI impI)
    fix i assume "i < length (x # xs)"
    then show "template ((e # es) ! i) = output_dataset_filepath outdir ((x # xs) ! i) \<and>
        output' ((e # es) ! i) = path_name ((x # xs) ! i) \<and>
        (image' ((e # es) ! i) = None \<or>
         image' ((e # es) ! i) = Some (output_image_filepath outdir ((x # xs) ! i)))"
      using e es(3) by (cases i) auto
  qed
  moreover have "cd' = cd @ (e # es)" using e(1) es(1) by simp
  moreover have "length (e # es) = length (x # xs)" using es(2) by simp
  ultimately show ?case by blast
qed

lemma samples16_length: "length (samples16 bs) = length bs div 2"
  by (induction bs rule: samples16.induct) auto







lemma example_paths:
  "path_name ''in/a.dcm'' = ''a.dcm''"
  "output_dataset_filepath ''out'' ''in/a.dcm'' = ''out/a.json''"
  "output_image_filepath ''out'' ''in/a.dcm'' = ''out/a.png''"
  "output_template_filepath ''out'' = ''out/_dicom2json.json''"
  by (simp_all add: path_name_def output_dataset_filepath_def output_image_filepath_def
      output_template_filepath_def output_filepath_def with_suffix_def joinpath_def stem_def
      suffix_of_def rfind_dot_def JSON_SUFFIX_def PNG_SUFFIX_def Let_def)



lemma dicom2json_abort:
  assumes pre: "convert_all outdir pre rdf [] w0 = (None, cd, w1)"
    and c: "convert_dicom_to_data outdir f rdf cd (logger DEBUG (Convert f) w1) = (Some e, cd', w')"
  shows "dicom2json outdir (pre @ f # post) rdf w0 = (Some e, w') \<and>
         (\<forall>p es. files w' p = Some (Manifest es) \<longrightarrow> files w0 p = Some (Manifest es))"
proof -
  have "convert_all outdir (pre @ f # post) rdf [] w0 = (Some e, cd', w')"
    by (simp add: convert_all_append pre c)
  then have run: "dicom2json outdir (pre @ f # post) rdf w0 = (Some e, w')"
    by (simp add: dicom2json_def)
  have "files w0 p = Some (Manifest es)" if h: "files w' p = Some (Manifest es)" for p es
  proof -
    from convert_no_manifest [OF c h] have "files w1 p = Some (Manifest es)"
      by (simp add: logger_def)
    from convert_all_no_manifest [OF pre this] show ?thesis .
  qed
  with run show ?thesis by blast
qed




lemma dcmread_error:
  "dcmread w f = Inl e \<Longrightarrow> e = FileNotFoundError \<or> e = PermissionError \<or> e = InvalidDicomError"
  by (auto simp: dcmread_def split: option.splits if_splits content.splits)

lemma py_len_error: "py_len v = Inl e \<Longrightarrow> e = TypeError"
  by (cases v rule: py_len.cases) auto

lemma expected_length_error: "expected_length r c b = Inl e \<Longrightarrow> e = TypeError"
  by (cases "(r, c, b)" rule: expected_length.cases) auto

lemma pixel_lengths_error:
  "pixel_lengths rows columns pixel_data bits_stored = Inl e \<Longrightarrow> e = TypeError"
  by (auto simp: pixel_lengths_def split: if_splits sum.splits
      dest: py_len_error expected_length_error)

lemma convert_value_error:
  assumes c: "convert_dicom_to_data outdir f rdf cd w = (Some (ValueError b), cd', w')"
  shows "\<exists>m ds. dcmread w f = Inr (m, ds) \<and>
           files w' (output_dataset_filepath outdir f) =
             Some (MetaJson m (fst (redact rdf (ds, w)))) \<and> cd' = cd"
proof (cases "dcmread w f")
  case (Inl e)
  from dcmread_error [OF Inl] c Inl show ?thesis
    by (auto simp: convert_dicom_to_data_def)
next
  case (Inr md)
  obtain m ds where md: "md = (m, ds)" by (cases md)
  obtain ds' ws where red: "\<forall>v. redact rdf (ds, v) = (ds', v\<lparr>logged := logged v @ ws\<rparr>)"
    using redact_shape [of rdf ds] by blast
  show ?thesis
  proof (cases "pixel_lengths (ds_get ds ''Rows'') (ds_get ds ''Columns'')
                  (ds_get ds ''PixelData'') (ds_get ds ''BitsStored'')")
    case (Inl e)
    from pixel_lengths_error [OF Inl] c Inl Inr md show ?thesis
      by (auto simp: convert_dicom_to_data_def Let_def)
  next
    case pl: (Inr lens)
    show ?thesis
    proof (cases "writable w (output_dataset_filepath outdir f)")
      case False
      with c Inr md pl red show ?thesis
        by (auto simp: convert_dicom_to_data_def Let_def open_write_def)
    next
      case True
      let ?u = "w\<lparr>logged := logged w @ ws,
                  files := (files w)(output_dataset_filepath outdir f \<mapsto> MetaJson m ds')\<rparr>"
      from True c Inr md pl red have ci:
        "create_image outdir f (ds_get ds ''Rows'') (ds_get ds ''Columns'')
              (ds_get ds ''PixelData'') (ds_get ds ''BitsStored'') lens cd ?u =
           (Some (ValueError b), cd', w')"
        by (simp add: convert_dicom_to_data_def Let_def open_write_def)
      from create_image_entry [OF ci] have cd: "cd' = cd" by simp
      from create_image_frame [OF ci] json_png_differ [of outdir f]
      have "files w' (output_dataset_filepath outdir f) =
              files ?u (output_dataset_filepath outdir f)"
        by blast
      moreover have "fst (redact rdf (ds, w)) = ds'" using red by simp
      ultimately have "files w' (output_dataset_filepath outdir f) =
             Some (MetaJson m (fst (redact rdf (ds, w))))"
        by simp
      with Inr md cd show ?thesis by simp
    qed
  qed
qed

lemma samples_length:
  "B = 8 \<or> B = 16 \<Longrightarrow>
     length (samples (if B = 8 then uint8 else uint16) buf) = length buf div (unat (B :: 16 word) div 8)"
  by (auto simp: samples16_length)



lemma remove_fields_append:
  "remove_fields (xs @ ys) dw = remove_fields ys (remove_fields xs dw)"
proof (induction xs arbitrary: dw)
  case Nil
  show ?case by (cases dw) simp
next
  case (Cons x xs)
  show ?case by (cases dw) (simp add: Cons.IH)
qed

lemma remove_fields_absent:
  assumes "ds_get ds F = None"
  shows "\<exists>ds' pre post.
     (\<forall>v. remove_fields (xs @ F # ys) (ds, v) =
        (ds', v\<lparr>logged := logged v @ pre @ (WARNING, UnrecognizedField F) # post\<rparr>)) \<and>
     (\<forall>v. remove_fields (xs @ ys) (ds, v) = (ds', v\<lparr>logged := logged v @ pre @ post\<rparr>))"
proof -
  obtain ds1 pre where xs: "\<forall>v. remove_fields xs (ds, v) = (ds1, v\<lparr>logged := logged v @ pre\<rparr>)"
    using remove_fields_shape [of xs ds] by blast
  have "ds_get (fst (remove_fields xs (ds, v))) F = None" for v :: world
    using assms by (simp add: remove_fields_get)
  then have absent: "\<not> truthy (ds_get ds1 F)"
    using xs by simp
  obtain ds' post where ys: "\<forall>v. remove_fields ys (ds1, v) = (ds', v\<lparr>logged := logged v @ post\<rparr>)"
    using remove_fields_shape [of ys ds1] by blast
  have a: "\<forall>v. remove_fields (xs @ F # ys) (ds, v) =
        (ds', v\<lparr>logged := logged v @ pre @ (WARNING, UnrecognizedField F) # post\<rparr>)"
    using absent by (simp add: remove_fields_append xs ys logger_def)
  have b: "\<forall>v. remove_fields (xs @ ys) (ds, v) = (ds', v\<lparr>logged := logged v @ pre @ post\<rparr>)"
    by (simp add: remove_fields_append xs ys)
  from a b show ?thesis by blast
qed

lemma create_image_param:
  "\<exists>r cd' tl fl. \<forall>l.
     create_image outdir f rows columns pixel_data bits_stored lens cd (u\<lparr>logged := l\<rparr>) =
       (r, cd', u\<lparr>logged := l @ tl, files := fl\<rparr>)"
proof -
  let ?res = "create_image outdir f rows columns pixel_data bits_stored lens cd u"
  have "\<forall>l.
     create_image outdir f rows columns pixel_data bits_stored lens cd (u\<lparr>logged := l\<rparr>) =
       (fst ?res, fst (snd ?res),
        u\<lparr>logged := l @ drop (length (logged u)) (logged (snd (snd ?res))),
          files := files (snd (snd ?res))\<rparr>)"
    by (auto simp: create_image_def logger_def imwrite_def
        split: option.splits sum.splits prod.splits)
  then show ?thesis by blast
qed

lemma redact_Some_Nil: "redact (Some []) dw = redact None dw"
  by (cases dw) (simp add: redact_def)

lemma example_batch_manifest:
  "dicom2json ''out'' [''in/a.dcm'', ''in/b.dcm''] None example_batch_world =
     (None, w') \<Longrightarrow>
   files w' ''out/_dicom2json.json'' =
     Some (Manifest
       [[(''template'', JString ''out/a.json''), (''image'', JString ''out/a.png''),
         (''output'', JString ''a.dcm'')],
        [(''template'', JString ''out/b.json''), (''image'', JNull),
         (''output'', JString ''b.dcm'')]])"
proof -
  assume h: "dicom2json ''out'' [''in/a.dcm'', ''in/b.dcm''] None example_batch_world = (None, w')"
  have "files (snd (dicom2json ''out'' [''in/a.dcm'', ''in/b.dcm''] None example_batch_world))
          ''out/_dicom2json.json'' =
     Some (Manifest
       [[(''template'', JString ''out/a.json''), (''image'', JString ''out/a.png''),
         (''output'', JString ''a.dcm'')],
        [(''template'', JString ''out/b.json''), (''image'', JNull),
         (''output'', JString ''b.dcm'')]])"
    by code_simp
  with h show ?thesis by simp
qed

lemma example_image_pixels:
  "files (snd (snd (convert_dicom_to_data ''out'' ''in/a.dcm'' None []
      (example_world example_image)))) ''out/a.png'' =
     Some (Png \<lparr>depth = 8, pixels = [[10, 20], [30, 40]]\<rparr>)"
  by code_simp

lemma redaction_of_true_valued_fields:
  assumes "redact (Some ns) (ds, w) = (ds', w')"
  shows "ds_get ds' k = (if k \<in> set ns \<and> truthy (ds_get ds k) then None else ds_get ds k)"
  using assms remove_fields_get [of ns ds w k] by (simp add: redact_def)

lemma example_image16_pixels:
  "files (snd (snd (convert_dicom_to_data ''out'' ''in/a.dcm'' None []
      (example_world example_image16)))) ''out/a.png'' =
     Some (Png \<lparr>depth = 16, pixels = [[1, 256]]\<rparr>)"
  by code_simp

lemma remove_fields_attr_agrees:
  assumes "set ns \<inter> fst ` set attrs = {}"
  shows "remove_fields_attr attrs ns (ds, w) = (None, remove_fields ns (ds, w))"
  using assms
proof (induction ns arbitrary: ds w)
  case Nil
  show ?case by simp
next
  case (Cons n ns)
  from Cons.prems have n: "map_of attrs n = None"
    by (auto simp: map_of_eq_None_iff)
  from Cons.prems have rest: "set ns \<inter> fst ` set attrs = {}" by auto
  have g: "get_truth attrs ds n = truthy (ds_get ds n)"
    by (simp add: get_truth_def n)
  show ?case
  proof (cases "truthy (ds_get ds n)")
    case True
    then obtain v where "ds_get ds n = Some v" by (cases "ds_get ds n") auto
    then have "pop_element ds n = Inr (ds_pop ds n)" by (simp add: pop_element_def)
    with True g Cons.IH [OF rest] show ?thesis by simp
  next
    case False
    with g Cons.IH [OF rest] show ?thesis by simp
  qed
qed

lemma redact_attr_agrees:
  assumes "\<forall>ns. rdf = Some ns \<longrightarrow> set ns \<inter> fst ` set attrs = {}"
  shows "redact_attr attrs rdf (ds, w) = (None, redact rdf (ds, w))"
  using assms
  by (cases rdf) (simp_all add: redact_attr_def redact_def remove_fields_attr_agrees)

lemma convert_attr_agrees:
  assumes "\<forall>ns. rdf = Some ns \<longrightarrow> set ns \<inter> fst ` set attrs = {}"
  shows "convert_dicom_to_data_attr attrs outdir f rdf cd w =
         convert_dicom_to_data outdir f rdf cd w"
  unfolding convert_dicom_to_data_attr_def convert_dicom_to_data_def
  by (simp add: redact_attr_agrees [OF assms] Let_def
      split: sum.splits prod.splits option.splits)

lemma convert_all_attr_agrees:
  assumes "\<forall>ns. rdf = Some ns \<longrightarrow> set ns \<inter> fst ` set attrs = {}"
  shows "convert_all_attr attrs outdir fs rdf cd w = convert_all outdir fs rdf cd w"
proof (induction fs arbitrary: cd w)
  case Nil
  show ?case by simp
next
  case (Cons x xs)
  show ?case
    by (simp add: convert_attr_agrees [OF assms] Cons.IH split: prod.splits option.splits)
qed

lemma dicom2json_attr_agrees:
  assumes "\<forall>ns. rdf = Some ns \<longrightarrow> set ns \<inter> fst ` set attrs = {}"
  shows "dicom2json_attr attrs outdir fs rdf w = dicom2json outdir fs rdf w"
  by (simp add: dicom2json_attr_def dicom2json_def convert_all_attr_agrees [OF assms])

lemma convert_raises_before_redaction:
  assumes rd: "dcmread w f = Inr (m, ds)"
    and pl: "pixel_lengths (ds_get ds ''Rows'') (ds_get ds ''Columns'')
               (ds_get ds ''PixelData'') (ds_get ds ''BitsStored'') = Inl e"
  shows "convert_dicom_to_data outdir f rdf cd w = (Some e, cd, w)"
  by (simp add: convert_dicom_to_data_def rd pl Let_def)

lemma convert_after_redaction:
  assumes rd: "dcmread w f = Inr (m, ds)"
    and pl: "pixel_lengths (ds_get ds ''Rows'') (ds_get ds ''Columns'')
               (ds_get ds ''PixelData'') (ds_get ds ''BitsStored'') = Inr lens"
  shows "\<exists>r cd' tl fl.
     \<forall>rdf ws. (\<forall>v. redact rdf (ds, v) = (ds', v\<lparr>logged := logged v @ ws\<rparr>)) \<longrightarrow>
        convert_dicom_to_data outdir f rdf cd w =
          (r, cd', w\<lparr>logged := logged w @ ws @ tl, files := fl\<rparr>)"
proof (cases "writable w (output_dataset_filepath outdir f)")
  case False
  have "convert_dicom_to_data outdir f rdf cd w =
          (Some PermissionError, cd, w\<lparr>logged := logged w @ ws @ [], files := files w\<rparr>)"
    if "\<forall>v. redact rdf (ds, v) = (ds', v\<lparr>logged := logged v @ ws\<rparr>)" for rdf ws
    using False that by (simp add: convert_dicom_to_data_def rd pl Let_def open_write_def)
  then show ?thesis by blast
next
  case True
  let ?u = "w\<lparr>files := (files w)(output_dataset_filepath outdir f \<mapsto> MetaJson m ds')\<rparr>"
  from create_image_param [of outdir f "ds_get ds ''Rows''" "ds_get ds ''Columns''"
      "ds_get ds ''PixelData''" "ds_get ds ''BitsStored''" lens cd ?u]
  obtain r cd' tl fl where ci: "\<forall>l.
     create_image outdir f (ds_get ds ''Rows'') (ds_get ds ''Columns'')
       (ds_get ds ''PixelData'') (ds_get ds ''BitsStored'') lens cd (?u\<lparr>logged := l\<rparr>) =
     (r, cd', ?u\<lparr>logged := l @ tl, files := fl\<rparr>)"
    by blast
  have "convert_dicom_to_data outdir f rdf cd w =
          (r, cd', w\<lparr>logged := logged w @ ws @ tl, files := fl\<rparr>)"
    if red: "\<forall>v. redact rdf (ds, v) = (ds', v\<lparr>logged := logged v @ ws\<rparr>)" for rdf ws
  proof -
    have u: "w\<lparr>logged := logged w @ ws,
               files := (files w)(output_dataset_filepath outdir f \<mapsto> MetaJson m ds')\<rparr> =
             ?u\<lparr>logged := logged w @ ws\<rparr>"
      by simp
    have "convert_dicom_to_data outdir f rdf cd w =
       create_image outdir f (ds_get ds ''Rows'') (ds_get ds ''Columns'')
         (ds_get ds ''PixelData'') (ds_get ds ''BitsStored'') lens cd
         (?u\<lparr>logged := logged w @ ws\<rparr>)"
      using True by (simp add: convert_dicom_to_data_def rd pl Let_def open_write_def red u)
    also have "\<dots> = (r, cd', ?u\<lparr>logged := (logged w @ ws) @ tl, files := fl\<rparr>)"
      using ci by blast
    also have "?u\<lparr>logged := (logged w @ ws) @ tl, files := fl\<rparr> =
               w\<lparr>logged := logged w @ ws @ tl, files := fl\<rparr>"
      by simp
    finally show ?thesis .
  qed
  then show ?thesis by blast
qed

lemma absent_field_redaction_warns:
  assumes rd: "dcmread w f = Inr (m, ds)"
    and absent: "ds_get ds F = None"
    and without: "rdf = Some (xs @ ys) \<or> (xs @ ys = [] \<and> rdf = None)"
    and c1: "convert_dicom_to_data outdir f (Some (xs @ F # ys)) cd w = (r1, cd1, w1)"
    and c2: "convert_dicom_to_data outdir f rdf cd w = (r2, cd2, w2)"
  shows "r1 = r2 \<and> cd1 = cd2 \<and> files w1 = files w2 \<and>
     readable w1 = readable w2 \<and> writable w1 = writable w2 \<and>
     (case pixel_lengths (ds_get ds ''Rows'') (ds_get ds ''Columns'')
             (ds_get ds ''PixelData'') (ds_get ds ''BitsStored'') of
        Inl e \<Rightarrow> r1 = Some e \<and> logged w1 = logged w2
      | Inr lens \<Rightarrow>
          (\<exists>pre post. logged w1 = pre @ (WARNING, UnrecognizedField F) # post \<and>
                      logged w2 = pre @ post))"
proof (cases "pixel_lengths (ds_get ds ''Rows'') (ds_get ds ''Columns'')
                (ds_get ds ''PixelData'') (ds_get ds ''BitsStored'')")
  case (Inl e)
  from convert_raises_before_redaction [OF rd Inl] c1 c2 Inl show ?thesis by simp
next
  case (Inr lens)
  from remove_fields_absent [OF absent, of xs ys] obtain ds' pre post where
    a: "\<forall>v. remove_fields (xs @ F # ys) (ds, v) =
        (ds', v\<lparr>logged := logged v @ pre @ (WARNING, UnrecognizedField F) # post\<rparr>)"
    and b: "\<forall>v. remove_fields (xs @ ys) (ds, v) = (ds', v\<lparr>logged := logged v @ pre @ post\<rparr>)"
    by blast
  have red1: "\<forall>v. redact (Some (xs @ F # ys)) (ds, v) =
        (ds', v\<lparr>logged := logged v @ (pre @ (WARNING, UnrecognizedField F) # post)\<rparr>)"
    using a by (simp add: redact_def)
  have "\<forall>v. redact (Some (xs @ ys)) (ds, v) = (ds', v\<lparr>logged := logged v @ (pre @ post)\<rparr>)"
    using b by (simp add: redact_def)
  with without have red2: "\<forall>v. redact rdf (ds, v) = (ds', v\<lparr>logged := logged v @ (pre @ post)\<rparr>)"
    by (auto simp: redact_Some_Nil [symmetric] simp del: append_is_Nil_conv)
  from convert_after_redaction [OF rd Inr, of ds' outdir cd] obtain r cd' tl fl where
    h: "\<forall>rdf ws. (\<forall>v. redact rdf (ds, v) = (ds', v\<lparr>logged := logged v @ ws\<rparr>)) \<longrightarrow>
        convert_dicom_to_data outdir f rdf cd w =
          (r, cd', w\<lparr>logged := logged w @ ws @ tl, files := fl\<rparr>)"
    by blast
  from h red1 c1 have e1: "(r1, cd1, w1) =
     (r, cd', w\<lparr>logged := logged w @ (pre @ (WARNING, UnrecognizedField F) # post) @ tl,
                files := fl\<rparr>)"
    by metis
  from h red2 c2 have e2: "(r2, cd2, w2) =
     (r, cd', w\<lparr>logged := logged w @ (pre @ post) @ tl, files := fl\<rparr>)"
    by metis
  have "logged w1 = (logged w @ pre) @ (WARNING, UnrecognizedField F) # (post @ tl)"
    using e1 by simp
  moreover have "logged w2 = (logged w @ pre) @ (post @ tl)"
    using e2 by simp
  ultimately have "\<exists>p q. logged w1 = p @ (WARNING, UnrecognizedField F) # q \<and>
                logged w2 = p @ q"
    by blast
  with e1 e2 Inr show ?thesis by auto
qed

lemma absent_field_redaction_warns_attr:
  assumes rd: "dcmread w f = Inr (m, ds)"
    and absent: "ds_get ds F = None"
    and names: "set (xs @ F # ys) \<inter> fst ` set attrs = {}"
    and without: "rdf = Some (xs @ ys) \<or> (xs @ ys = [] \<and> rdf = None)"
    and c1: "convert_dicom_to_data_attr attrs outdir f (Some (xs @ F # ys)) cd w = (r1, cd1, w1)"
    and c2: "convert_dicom_to_data_attr attrs outdir f rdf cd w = (r2, cd2, w2)"
  shows "r1 = r2 \<and> cd1 = cd2 \<and> files w1 = files w2 \<and>
     readable w1 = readable w2 \<and> writable w1 = writable w2 \<and>
     (case pixel_lengths (ds_get ds ''Rows'') (ds_get ds ''Columns'')
             (ds_get ds ''PixelData'') (ds_get ds ''BitsStored'') of
        Inl e \<Rightarrow> r1 = Some e \<and> logged w1 = logged w2
      | Inr lens \<Rightarrow>
          (\<exists>pre post. logged w1 = pre @ (WARNING, UnrecognizedField F) # post \<and>
                      logged w2 = pre @ post))"
proof -
  have n1: "\<forall>ns. Some (xs @ F # ys) = Some ns \<longrightarrow> set ns \<inter> fst ` set attrs = {}"
    using names by simp
  from names have "set (xs @ ys) \<inter> fst ` set attrs = {}" by auto
  with without have n2: "\<forall>ns. rdf = Some ns \<longrightarrow> set ns \<inter> fst ` set attrs = {}"
    by fastforce
  from c1 have c1': "convert_dicom_to_data outdir f (Some (xs @ F # ys)) cd w = (r1, cd1, w1)"
    by (simp only: convert_attr_agrees [OF n1])
  from c2 have c2': "convert_dicom_to_data outdir f rdf cd w = (r2, cd2, w2)"
    by (simp only: convert_attr_agrees [OF n2])
  show ?thesis
    by (rule absent_field_redaction_warns [OF rd absent without c1' c2'])
qed

lemma absent_field_redaction_example:
  "fst (convert_dicom_to_data_attr example_attributes ''out'' ''in/a.dcm''
          (Some [''PixelData'', ''PatientName'']) [] (example_world example_image)) = None \<and>
   logged (snd (snd (convert_dicom_to_data_attr example_attributes ''out'' ''in/a.dcm''
          (Some [''PixelData'', ''PatientName'']) [] (example_world example_image)))) =
     [(WARNING, UnrecognizedField ''PatientName'')] \<and>
   logged (snd (snd (convert_dicom_to_data_attr example_attributes ''out'' ''in/a.dcm''
          (Some [''PixelData'']) [] (example_world example_image)))) = [] \<and>
   files (snd (snd (convert_dicom_to_data_attr example_attributes ''out'' ''in/a.dcm''
          (Some [''PixelData'', ''PatientName'']) [] (example_world example_image)))) ''out/a.json'' =
     files (snd (snd (convert_dicom_to_data_attr example_attributes ''out'' ''in/a.dcm''
          (Some [''PixelData'']) [] (example_world example_image)))) ''out/a.json''"
  by code_simp

subsection \<open>The claims\<close>










text \<open>
  C4. The loop of lines 79 to 85 removes a field only where the value that
  \<^verbatim>\<open>get\<close> returns is true. A field of the dataset whose value is 0 or empty stays:
  with PixelRepresentation 0 in the dataset and PixelRepresentation in the redaction
  list, the metadata JSON still has the element, and the warning for an unrecognized
  field is logged.
\<close>

theorem C4_zero_valued_field_is_not_redacted:
  "ds_get example_unsigned ''PixelRepresentation'' = Some (US 0) \<and>
   fst (convert_dicom_to_data ''out'' ''in/a.dcm'' (Some [''PixelRepresentation'']) []
          (example_world example_unsigned)) = None \<and>
   files (snd (snd (convert_dicom_to_data ''out'' ''in/a.dcm'' (Some [''PixelRepresentation'']) []
          (example_world example_unsigned)))) ''out/a.json'' =
     Some (MetaJson example_meta
             [(''PatientID'', Txt ''P1''), (''PixelRepresentation'', US 0)]) \<and>
   logged (snd (snd (convert_dicom_to_data ''out'' ''in/a.dcm'' (Some [''PixelRepresentation'']) []
          (example_world example_unsigned)))) =
     [(WARNING, UnrecognizedField ''PixelRepresentation''),
      (WARNING, NoPixelFields ''in/a.dcm'')]"
  by code_simp

text \<open>
  C5. When a run over \<open>input_files\<close> completes, the manifest file holds an array with
  one object per input file, in the order of the input files: the object number \<open>i\<close>
  has the keys template, image and output, with the metadata path of file \<open>i\<close>, its
  image path or null, and its file name.
\<close>

theorem C5_manifest_one_entry_per_file_in_order:
  assumes "dicom2json outdir input_files rdf w = (None, w')"
  shows "\<exists>es.
     files w' (output_template_filepath outdir) = Some (Manifest es) \<and>
     length es = length input_files \<and>
     (\<forall>i < length input_files.
        \<exists>img. (img = JNull \<or> img = JString (output_image_filepath outdir (input_files ! i))) \<and>
          es ! i =
            [(TEMPLATE, JString (output_dataset_filepath outdir (input_files ! i))),
             (IMAGE, img),
             (OUTPUT, JString (path_name (input_files ! i)))])"
proof -
  obtain r cd w1 where all: "convert_all outdir input_files rdf [] w = (r, cd, w1)"
    by (cases "convert_all outdir input_files rdf [] w")
  from assms all have r: "r = None"
    by (cases r) (auto simp: dicom2json_def)
  from assms all r have wr: "writable w1 (output_template_filepath outdir)"
    by (auto simp: dicom2json_def open_write_def split: if_splits)
  from assms all r wr have w': "w' = logger DEBUG (OutputWritten outdir)
      (w1\<lparr>files := (files w1)(output_template_filepath outdir \<mapsto> Manifest (map json_of cd))\<rparr>)"
    by (simp add: dicom2json_def open_write_def)
  from convert_all_entries [OF all [unfolded r]] obtain ds where
    ds: "cd = ds" "length ds = length input_files"
    and ent: "\<forall>i < length input_files.
        template (ds ! i) = output_dataset_filepath outdir (input_files ! i) \<and>
        output' (ds ! i) = path_name (input_files ! i) \<and>
        (image' (ds ! i) = None \<or>
         image' (ds ! i) = Some (output_image_filepath outdir (input_files ! i)))"
    by auto
  let ?es = "map json_of cd"
  have fl: "files w' (output_template_filepath outdir) = Some (Manifest ?es)"
    by (simp add: w' logger_def)
  have n: "length ?es = length input_files" using ds by simp
  have "\<exists>img. (img = JNull \<or> img = JString (output_image_filepath outdir (input_files ! i))) \<and>
          ?es ! i =
            [(TEMPLATE, JString (output_dataset_filepath outdir (input_files ! i))),
             (IMAGE, img),
             (OUTPUT, JString (path_name (input_files ! i)))]"
    if i: "i < length input_files" for i
  proof -
    from ent i ds have
      t: "template (cd ! i) = output_dataset_filepath outdir (input_files ! i)"
      and o: "output' (cd ! i) = path_name (input_files ! i)"
      and im: "image' (cd ! i) = None \<or>
               image' (cd ! i) = Some (output_image_filepath outdir (input_files ! i))"
      by auto
    from i ds have e: "?es ! i = json_of (cd ! i)" by simp
    from im show ?thesis
    proof
      assume "image' (cd ! i) = None"
      with t o e show ?thesis by (simp add: json_of_def)
    next
      assume "image' (cd ! i) = Some (output_image_filepath outdir (input_files ! i))"
      with t o e show ?thesis by (simp add: json_of_def)
    qed
  qed
  with fl n show ?thesis by blast
qed

theorem C5_manifest_witness:
  "\<exists>es.
     files (snd (dicom2json ''out'' [''in/a.dcm'', ''in/b.dcm''] None example_batch_world))
       (output_template_filepath ''out'') = Some (Manifest es) \<and>
     length es = length [''in/a.dcm'', ''in/b.dcm''] \<and>
     (\<forall>i < length [''in/a.dcm'', ''in/b.dcm''].
        \<exists>img. (img = JNull \<or>
                img = JString (output_image_filepath ''out'' ([''in/a.dcm'', ''in/b.dcm''] ! i))) \<and>
          es ! i =
            [(TEMPLATE, JString (output_dataset_filepath ''out'' ([''in/a.dcm'', ''in/b.dcm''] ! i))),
             (IMAGE, img),
             (OUTPUT, JString (path_name ([''in/a.dcm'', ''in/b.dcm''] ! i)))])"
proof -
  let ?d = "dicom2json ''out'' [''in/a.dcm'', ''in/b.dcm''] None example_batch_world"
  have "fst ?d = None"
    by code_simp
  then have h: "?d = (None, snd ?d)"
    by (metis prod.collapse)
  show ?thesis
    by (rule C5_manifest_one_entry_per_file_in_order [OF h])
qed



text \<open>
  C7. The test of line 80 is \<^verbatim>\<open>dicom_dataset.get(name)\<close>, an attribute lookup: for a
  name that is no data element of the record but an attribute of the dataset object,
  such as \<^verbatim>\<open>filename\<close>, it is true, and the \<^verbatim>\<open>pop\<close> of line 81 raises KeyError.
  With \<^verbatim>\<open>filename\<close> in the redaction list the conversion of the file ends with that
  exception before the metadata JSON is written and the run ends without manifest;
  without the name in the list the same run completes.
\<close>

theorem C7_attribute_name_raises_KeyError:
  "ds_get example_image ''filename'' = None \<and>
   map_of example_attributes ''filename'' = Some True \<and>
   fst (convert_dicom_to_data_attr example_attributes ''out'' ''in/a.dcm'' (Some [''filename'']) []
          (example_world example_image)) = Some (KeyError ''filename'') \<and>
   fst (snd (convert_dicom_to_data_attr example_attributes ''out'' ''in/a.dcm''
          (Some [''filename'']) [] (example_world example_image))) = [] \<and>
   files (snd (snd (convert_dicom_to_data_attr example_attributes ''out'' ''in/a.dcm''
          (Some [''filename'']) [] (example_world example_image)))) ''out/a.json'' = None \<and>
   logged (snd (snd (convert_dicom_to_data_attr example_attributes ''out'' ''in/a.dcm''
          (Some [''filename'']) [] (example_world example_image)))) = [] \<and>
   fst (dicom2json_attr example_attributes ''out'' [''in/a.dcm''] (Some [''filename''])
          (example_world example_image)) = Some (KeyError ''filename'') \<and>
   files (snd (dicom2json_attr example_attributes ''out'' [''in/a.dcm''] (Some [''filename''])
          (example_world example_image))) ''out/_dicom2json.json'' = None \<and>
   fst (dicom2json_attr example_attributes ''out'' [''in/a.dcm''] None
          (example_world example_image)) = None \<and>
   files (snd (dicom2json_attr example_attributes ''out'' [''in/a.dcm''] None
          (example_world example_image))) ''out/_dicom2json.json'' =
     Some (Manifest [[(''template'', JString ''out/a.json''), (''image'', JString ''out/a.png''),
                      (''output'', JString ''a.dcm'')]])"
  by code_simp



text \<open>
  C10. Where the files before \<open>f\<close> have been converted and the conversion of \<open>f\<close>
  raises the ValueError of line 109, the run ends with that exception, the metadata
  JSON of \<open>f\<close> (its meta header and its redacted dataset) is in the file system the
  run leaves behind, no entry for \<open>f\<close> was appended and no manifest was written.
\<close>

theorem C10_aborting_file_leaves_metadata:
  assumes pre: "convert_all outdir pre rdf [] w0 = (None, cd, w1)"
    and c: "convert_dicom_to_data outdir f rdf cd (logger DEBUG (Convert f) w1) =
              (Some (ValueError b), cd', w')"
  shows "dicom2json outdir (pre @ f # post) rdf w0 = (Some (ValueError b), w') \<and>
     (\<exists>m ds. dcmread w1 f = Inr (m, ds) \<and>
        files w' (output_dataset_filepath outdir f) =
          Some (MetaJson m (fst (redact rdf (ds, w1))))) \<and>
     cd' = cd \<and>
     (\<forall>p es. files w' p = Some (Manifest es) \<longrightarrow> files w0 p = Some (Manifest es))"
proof -
  from convert_value_error [OF c] obtain m ds where
    rd: "dcmread w1 f = Inr (m, ds)"
    and fl: "files w' (output_dataset_filepath outdir f) =
               Some (MetaJson m (fst (redact rdf (ds, logger DEBUG (Convert f) w1))))"
    and cd: "cd' = cd"
    by auto
  obtain ds' ws where red: "\<forall>v. redact rdf (ds, v) = (ds', v\<lparr>logged := logged v @ ws\<rparr>)"
    using redact_shape [of rdf ds] by blast
  then have "fst (redact rdf (ds, logger DEBUG (Convert f) w1)) = fst (redact rdf (ds, w1))"
    by simp
  with fl have fl': "files w' (output_dataset_filepath outdir f) =
               Some (MetaJson m (fst (redact rdf (ds, w1))))"
    by simp
  from dicom2json_abort [OF pre c, of post] rd fl' cd show ?thesis by blast
qed

theorem C10_aborting_file_witness:
  "dicom2json ''out'' ([] @ ''in/a.dcm'' # []) None (example_world example_12bit) =
     (Some (ValueError 12),
      snd (snd (convert_dicom_to_data ''out'' ''in/a.dcm'' None []
        (logger DEBUG (Convert ''in/a.dcm'') (example_world example_12bit))))) \<and>
   (\<exists>m ds. dcmread (example_world example_12bit) ''in/a.dcm'' = Inr (m, ds) \<and>
      files (snd (snd (convert_dicom_to_data ''out'' ''in/a.dcm'' None []
        (logger DEBUG (Convert ''in/a.dcm'') (example_world example_12bit)))))
          (output_dataset_filepath ''out'' ''in/a.dcm'') =
        Some (MetaJson m (fst (redact None (ds, example_world example_12bit))))) \<and>
   fst (snd (convert_dicom_to_data ''out'' ''in/a.dcm'' None []
        (logger DEBUG (Convert ''in/a.dcm'') (example_world example_12bit)))) = [] \<and>
   \<not> (\<exists>p es. files (snd (snd (convert_dicom_to_data ''out'' ''in/a.dcm'' None []
        (logger DEBUG (Convert ''in/a.dcm'') (example_world example_12bit))))) p =
          Some (Manifest es))"
proof -
  let ?c = "convert_dicom_to_data ''out'' ''in/a.dcm'' None []
        (logger DEBUG (Convert ''in/a.dcm'') (example_world example_12bit))"
  have h0: "convert_all ''out'' [] None [] (example_world example_12bit) =
              (None, [], example_world example_12bit)"
    by simp
  have "fst ?c = Some (ValueError 12)"
    by code_simp
  then have h1: "?c = (Some (ValueError 12), fst (snd ?c), snd (snd ?c))"
    by (metis prod.collapse)
  have none: "files (example_world example_12bit) p \<noteq> Some (Manifest es)" for p es
    by (simp add: example_world_def)
  from C10_aborting_file_leaves_metadata [OF h0 h1, of "[]"] none show ?thesis
    by blast
qed

end
